theory Spec2Isabelle
  imports Complex_Main "HOL-Library.Multiset"
begin

section \<open>Exceptions\<close>

text \<open>
  Exceptions raised by code outside the two modules (the numerical back ends of scipy
  and pyamg, the adjacency, affinity and Laplacian collaborators, the validators).
  The two classes that \<open>null_space\<close> catches are kept apart.
\<close>

datatype exn = LinAlgError | RuntimeError string | OtherException string

text \<open>
  One constructor for each \<open>raise\<close> of geometry.py and eigendecomp.py, and one for an
  exception of external code passing through.
\<close>

datatype error =
    No_data_matrix
  | Not_square string
  | Unrecognized_eigen_solver string
  | Pyamg_unavailable
  | Requires_symmetric
  | Arpack_null_space_error string
  | Unrecognized_null_space_solver string
  | Raised exn

section \<open>eigendecomp.py: solver selection\<close>

definition EIGEN_SOLVERS :: "string list" where
  "EIGEN_SOLVERS = [''auto'', ''dense'', ''arpack'', ''lobpcg'', ''amg'']"

text \<open>
  \<open>check_eigen_solver(eigen_solver, size=None, nvec=None)\<close>. The module constant
  \<open>PYAMG_LOADED\<close> (whether pyamg could be imported) is the first argument. The warning
  issued when lobpcg is replaced by dense has no effect on the result and is left out.
\<close>

definition check_eigen_solver ::
  "bool \<Rightarrow> string \<Rightarrow> int option \<Rightarrow> int option \<Rightarrow> error + string" where
  "check_eigen_solver pyamg_loaded eigen_solver msize nvec =
     (if eigen_solver \<notin> set EIGEN_SOLVERS then Inl (Unrecognized_eigen_solver eigen_solver)
      else if eigen_solver = ''amg'' \<and> \<not> pyamg_loaded then Inl Pyamg_unavailable
      else (case (msize, nvec) of
              (Some sz, Some nv) \<Rightarrow>
                if eigen_solver = ''lobpcg'' \<and> sz < 5 * nv + 1 then Inr ''dense''
                else if eigen_solver = ''auto'' then
                  (if sz > 200 \<and> nv < 10 then
                     (if pyamg_loaded then Inr ''amg'' else Inr ''arpack'')
                   else Inr ''dense'')
                else Inr eigen_solver
            | _ \<Rightarrow> Inr eigen_solver))"

section \<open>eigendecomp.py: matrices and external numerical routines\<close>

text \<open>
  A matrix is the list of its rows. Dense arrays and scipy's sparse layouts are not told
  apart: \<open>tocsr\<close>, \<open>todense\<close>, \<open>toarray\<close> and \<open>astype(np.float)\<close> keep every entry, and
  the only other use of the layout is a warning. Floating-point entries are modelled by
  exact reals. The matrix arguments are square (\<open>G.shape[0]\<close> is the number of rows and of
  columns).
\<close>

type_synonym 'a matrix = "'a list list"

text \<open>
  The results of \<open>eigen_decomposition\<close> and of \<open>null_space\<close>. \<open>scipy.linalg.eig\<close>
  returns complex arrays, and the dense path for a matrix that is not symmetric returns them
  as they are.
\<close>

datatype eigenpairs =
    Real_pairs "real list" "real matrix"
  | Complex_pairs "complex list" "complex matrix"

datatype null_space_result =
    Real_null "real matrix" real
  | Complex_null "complex matrix" complex

text \<open>
  The routines the module imports, as parameters: \<open>'p\<close> is the type of a pyamg
  preconditioner, \<open>'g\<close> the state of a numpy random generator (each draw returns the
  advanced state).
  \<^item> \<open>eigsh G k which tol v0\<close>, \<open>eigs G k which tol\<close>: scipy.sparse.linalg, as called by
    \<open>eigen_decomposition\<close>;
  \<^item> \<open>eigsh_sigma M k sigma tol maxiter v0\<close>: \<open>eigsh\<close> as called by \<open>null_space\<close>;
  \<^item> \<open>eigh\<close>, \<open>eig\<close>: scipy.linalg; \<open>eigh_eigvals M (lo, hi)\<close> is
    \<open>eigh(M, eigvals=(lo, hi), overwrite_a=True)\<close>;
  \<^item> \<open>smoothed_aggregation_solver G\<close>: pyamg's solver followed by \<open>aspreconditioner()\<close>;
  \<^item> \<open>lobpcg G X M largest\<close>: scipy's lobpcg, \<open>M = None\<close> when no preconditioner is passed;
  \<^item> \<open>check_array_csr G\<close>: \<open>check_array(G, accept_sparse=['csr'])\<close> of utils.validation;
  \<^item> \<open>uniform g lo hi n\<close>, \<open>rand g n m\<close>: the generator's methods.
\<close>

record ('p, 'g) externals =
  PYAMG_LOADED :: bool
  eigsh :: "real matrix \<Rightarrow> nat \<Rightarrow> string \<Rightarrow> real \<Rightarrow> real list \<Rightarrow> exn + real list \<times> real matrix"
  eigs :: "real matrix \<Rightarrow> nat \<Rightarrow> string \<Rightarrow> real \<Rightarrow> exn + complex list \<times> complex matrix"
  eigsh_sigma ::
    "real matrix \<Rightarrow> nat \<Rightarrow> real \<Rightarrow> real \<Rightarrow> nat \<Rightarrow> real list \<Rightarrow> exn + real list \<times> real matrix"
  eigh :: "real matrix \<Rightarrow> exn + real list \<times> real matrix"
  eigh_eigvals :: "real matrix \<Rightarrow> nat \<times> nat \<Rightarrow> exn + real list \<times> real matrix"
  eig :: "real matrix \<Rightarrow> exn + complex list \<times> complex matrix"
  smoothed_aggregation_solver :: "real matrix \<Rightarrow> exn + 'p"
  lobpcg :: "real matrix \<Rightarrow> real matrix \<Rightarrow> 'p option \<Rightarrow> bool \<Rightarrow> exn + real list \<times> real matrix"
  check_array_csr :: "real matrix \<Rightarrow> exn + real matrix"
  uniform :: "'g \<Rightarrow> real \<Rightarrow> real \<Rightarrow> nat \<Rightarrow> real list \<times> 'g"
  rand :: "'g \<Rightarrow> nat \<Rightarrow> nat \<Rightarrow> real matrix \<times> 'g"

text \<open>\<open>M - M.T\<close>, \<open>sparse.identity(n)\<close>, \<open>c * A\<close>, \<open>A + B\<close>, \<open>G.diagonal()\<close>.\<close>

definition mat_sub :: "real matrix \<Rightarrow> real matrix \<Rightarrow> real matrix" where
  "mat_sub A B = map2 (map2 (\<lambda>a b. a - b)) A B"

definition mat_add :: "real matrix \<Rightarrow> real matrix \<Rightarrow> real matrix" where
  "mat_add A B = map2 (map2 (\<lambda>a b. a + b)) A B"

definition mat_scale :: "real \<Rightarrow> real matrix \<Rightarrow> real matrix" where
  "mat_scale c A = map (map (\<lambda>a. c * a)) A"

definition identity :: "nat \<Rightarrow> real matrix" where
  "identity n = map (\<lambda>i. map (\<lambda>j. if i = j then 1 else 0) [0..<n]) [0..<n]"

definition diagonal :: "real matrix \<Rightarrow> real list" where
  "diagonal G = map (\<lambda>i. G ! i ! i) [0..<length G]"

text \<open>\<open>_is_symmetric(M, tol=1e-8)\<close>: every entry of \<open>|M - M.T|\<close> is below \<open>tol\<close>.\<close>

definition is_symmetric :: "real matrix \<Rightarrow> real \<Rightarrow> bool" where
  "is_symmetric M tol = list_all (list_all (\<lambda>d. \<bar>d\<bar> < tol)) (mat_sub M (transpose M))"

text \<open>
  \<open>np.argsort(v)\<close>, \<open>v[index]\<close> and \<open>A[:, index]\<close>. The sort is the stable one; numpy's
  default may order equal values differently, which selects the same values.
\<close>

definition argsort :: "real list \<Rightarrow> nat list" where
  "argsort v = map snd (sort_key fst (zip v [0..<length v]))"

definition fancy :: "'a list \<Rightarrow> nat list \<Rightarrow> 'a list" where
  "fancy v index = map (\<lambda>i. v ! i) index"

definition fancy_cols :: "'a matrix \<Rightarrow> nat list \<Rightarrow> 'a matrix" where
  "fancy_cols A index = map (\<lambda>row. fancy row index) A"

text \<open>The slice \<open>v[lo:hi]\<close> for indices that are not negative.\<close>

definition slice :: "nat \<Rightarrow> nat \<Rightarrow> 'a list \<Rightarrow> 'a list" where
  "slice lo hi v = drop lo (take hi v)"

section \<open>eigendecomp.py: eigen_decomposition\<close>

text \<open>
  The four branches of \<open>eigen_decomposition\<close>, each written out as in the source. A branch
  returns the result (or the exception) and the state of the random generator it leaves.
  \<open>n_components\<close> is the number after the \<open>drop_first\<close> increment.
\<close>

definition arpack_path ::
  "('p, 'g) externals \<Rightarrow> real matrix \<Rightarrow> nat \<Rightarrow> 'g \<Rightarrow> real \<Rightarrow> bool \<Rightarrow> bool
     \<Rightarrow> (error + eigenpairs) \<times> 'g" where
  "arpack_path ext G n_components random_state eigen_tol largest symmetric =
     (case uniform ext random_state (- 1) 1 (length G) of
        (v0, rs) \<Rightarrow>
          if symmetric then
            (case eigsh ext G n_components (if largest then ''LM'' else ''SM'') eigen_tol v0 of
               Inl x \<Rightarrow> (Inl (Raised x), rs)
             | Inr (lambdas, diffusion_map) \<Rightarrow> (Inr (Real_pairs lambdas diffusion_map), rs))
          else
            (case eigs ext G n_components (if largest then ''LR'' else ''SR'') eigen_tol of
               Inl x \<Rightarrow> (Inl (Raised x), rs)
             | Inr (lambdas, diffusion_map) \<Rightarrow>
                 (Inr (Real_pairs (map Re lambdas) (map (map Re) diffusion_map)), rs)))"

definition amg_path ::
  "('p, 'g) externals \<Rightarrow> real matrix \<Rightarrow> nat \<Rightarrow> nat \<Rightarrow> 'g \<Rightarrow> bool \<Rightarrow> bool
     \<Rightarrow> (error + eigenpairs) \<times> 'g" where
  "amg_path ext G n_nodes n_components random_state largest symmetric =
     (if \<not> symmetric then (Inl Requires_symmetric, random_state)
      else
        (case check_array_csr ext G of
           Inl x \<Rightarrow> (Inl (Raised x), random_state)
         | Inr G' \<Rightarrow>
            (case smoothed_aggregation_solver ext G' of
               Inl x \<Rightarrow> (Inl (Raised x), random_state)
             | Inr M \<Rightarrow>
                (let n_find = min n_nodes (5 + 2 * n_components) in
                 case rand ext random_state n_nodes n_find of
                   (X, rs) \<Rightarrow>
                     if n_find = 0 then (Inl (Raised (OtherException ''IndexError'')), rs)
                     else
                       (let X = map2 (\<lambda>row d. row[0 := d]) X (diagonal G) in
                        case lobpcg ext G X (Some M) largest of
                          Inl x \<Rightarrow> (Inl (Raised x), rs)
                        | Inr (lambdas, diffusion_map) \<Rightarrow>
                           (let sort_order = argsort lambdas;
                                lambdas = (if largest then fancy lambdas (rev sort_order)
                                           else fancy lambdas sort_order);
                                diffusion_map =
                                  (if largest then fancy_cols diffusion_map (rev sort_order)
                                   else fancy_cols diffusion_map sort_order);
                                lambdas = take n_components lambdas;
                                diffusion_map = map (take n_components) diffusion_map
                            in (Inr (Real_pairs lambdas diffusion_map), rs)))))))"

definition lobpcg_path ::
  "('p, 'g) externals \<Rightarrow> real matrix \<Rightarrow> nat \<Rightarrow> nat \<Rightarrow> 'g \<Rightarrow> bool \<Rightarrow> bool
     \<Rightarrow> (error + eigenpairs) \<times> 'g" where
  "lobpcg_path ext G n_nodes n_components random_state largest symmetric =
     (if \<not> symmetric then (Inl Requires_symmetric, random_state)
      else
        (let n_find = min n_nodes (5 + 2 * n_components) in
         case rand ext random_state n_nodes n_find of
           (X, rs) \<Rightarrow>
             (case lobpcg ext G X None largest of
                Inl x \<Rightarrow> (Inl (Raised x), rs)
              | Inr (lambdas, diffusion_map) \<Rightarrow>
                 (let sort_order = argsort lambdas;
                      lambdas = (if largest then fancy lambdas (rev sort_order)
                                 else fancy lambdas sort_order);
                      diffusion_map =
                        (if largest then fancy_cols diffusion_map (rev sort_order)
                         else fancy_cols diffusion_map sort_order);
                      lambdas = take n_components lambdas;
                      diffusion_map = map (take n_components) diffusion_map
                  in (Inr (Real_pairs lambdas diffusion_map), rs)))))"

definition dense_path ::
  "('p, 'g) externals \<Rightarrow> real matrix \<Rightarrow> nat \<Rightarrow> 'g \<Rightarrow> bool \<Rightarrow> bool
     \<Rightarrow> (error + eigenpairs) \<times> 'g" where
  "dense_path ext G n_components random_state largest symmetric =
     (if symmetric then
        (case eigh ext G of
           Inl x \<Rightarrow> (Inl (Raised x), random_state)
         | Inr (lambdas, diffusion_map) \<Rightarrow>
            (let lambdas = (if largest then rev lambdas else lambdas);
                 diffusion_map = (if largest then map rev diffusion_map else diffusion_map)
             in (Inr (Real_pairs (take n_components lambdas)
                        (map (take n_components) diffusion_map)), random_state)))
      else
        (case eig ext G of
           Inl x \<Rightarrow> (Inl (Raised x), random_state)
         | Inr (lambdas, diffusion_map) \<Rightarrow>
            (let lambdas = (if largest then rev lambdas else lambdas);
                 diffusion_map = (if largest then map rev diffusion_map else diffusion_map)
             in (Inr (Complex_pairs (take n_components lambdas)
                        (map (take n_components) diffusion_map)), random_state))))"

text \<open>
  \<open>eigen_decomposition(G, n_components, eigen_solver, random_state, eigen_tol, drop_first,
  largest)\<close>. \<open>random_state\<close> is the generator \<open>check_random_state\<close> returns. No solver
  name that \<open>check_eigen_solver\<close> returns here falls through the four branches; if one did,
  the final \<open>return\<close> would read unassigned variables.
\<close>

definition eigen_decomposition ::
  "('p, 'g) externals \<Rightarrow> real matrix \<Rightarrow> nat \<Rightarrow> string \<Rightarrow> 'g \<Rightarrow> real \<Rightarrow> bool \<Rightarrow> bool
     \<Rightarrow> (error + eigenpairs) \<times> 'g" where
  "eigen_decomposition ext G n_components eigen_solver random_state eigen_tol drop_first largest =
     (let n_nodes = length G;
          n_components = (if drop_first then n_components + 1 else n_components)
      in case check_eigen_solver (PYAMG_LOADED ext) eigen_solver
                (Some (int n_nodes)) (Some (int n_components)) of
           Inl e \<Rightarrow> (Inl e, random_state)
         | Inr eigen_solver \<Rightarrow>
            (let symmetric = is_symmetric G (1 / 10 ^ 8) in
             if eigen_solver = ''arpack'' then
               arpack_path ext G n_components random_state eigen_tol largest symmetric
             else if eigen_solver = ''amg'' then
               amg_path ext G n_nodes n_components random_state largest symmetric
             else if eigen_solver = ''lobpcg'' then
               lobpcg_path ext G n_nodes n_components random_state largest symmetric
             else if eigen_solver = ''dense'' then
               dense_path ext G n_components random_state largest symmetric
             else (Inl (Raised (OtherException ''UnboundLocalError'')), random_state)))"

section \<open>eigendecomp.py: null_space\<close>

text \<open>
  The lines shared by the dense branch and the two attempts of the amg/lobpcg branch,
  after the eigenvalues are obtained: subtract the shift (0 in the dense branch), order by
  absolute value, keep the columns \<open>k_skip:k+1\<close> and sum the eigenvalues \<open>k_skip:k+1\<close>.
\<close>

definition shift_sort_select ::
  "'a::real_normed_field list \<Rightarrow> 'a matrix \<Rightarrow> 'a \<Rightarrow> nat \<Rightarrow> nat \<Rightarrow> 'a matrix \<times> 'a" where
  "shift_sort_select eigen_values eigen_vectors shift k k_skip =
     (let eigen_values = map (\<lambda>v. v - shift) eigen_values;
          index = argsort (map norm eigen_values);
          eigen_values = fancy eigen_values index;
          eigen_vectors = fancy_cols eigen_vectors index
      in (map (slice k_skip (k + 1)) eigen_vectors, sum_list (slice k_skip (k + 1) eigen_values)))"

definition null_space_of_pairs :: "eigenpairs \<Rightarrow> real \<Rightarrow> nat \<Rightarrow> nat \<Rightarrow> null_space_result" where
  "null_space_of_pairs pairs shift k k_skip =
     (case pairs of
        Real_pairs eigen_values eigen_vectors \<Rightarrow>
          (case shift_sort_select eigen_values eigen_vectors shift k k_skip of
             (vectors, err) \<Rightarrow> Real_null vectors err)
      | Complex_pairs eigen_values eigen_vectors \<Rightarrow>
          (case shift_sort_select eigen_values eigen_vectors (of_real shift) k k_skip of
             (vectors, err) \<Rightarrow> Complex_null vectors err))"

text \<open>
  \<open>null_space(M, k, k_skip, eigen_solver, tol, max_iter, random_state)\<close>, its three
  branches first. \<open>random_state\<close> is the generator \<open>check_random_state\<close> returns, used by
  the arpack branch; \<open>np_random\<close> is numpy's global generator, which
  \<open>eigen_decomposition\<close> draws from when it is called without a \<open>random_state\<close>, as the
  amg/lobpcg branch calls it.
\<close>

definition null_space_arpack ::
  "('p, 'g) externals \<Rightarrow> real matrix \<Rightarrow> nat \<Rightarrow> nat \<Rightarrow> real \<Rightarrow> nat \<Rightarrow> 'g
     \<Rightarrow> error + null_space_result" where
  "null_space_arpack ext M k k_skip tol max_iter random_state =
     (case uniform ext random_state (- 1) 1 (length M) of
        (v0, rs) \<Rightarrow>
          (case eigsh_sigma ext M (k + k_skip) 0 tol max_iter v0 of
             Inl (RuntimeError msg) \<Rightarrow> Inl (Arpack_null_space_error msg)
           | Inl x \<Rightarrow> Inl (Raised x)
           | Inr (eigen_values, eigen_vectors) \<Rightarrow>
               Inr (Real_null (map (drop k_skip) eigen_vectors)
                      (sum_list (drop k_skip eigen_values)))))"

definition null_space_dense ::
  "('p, 'g) externals \<Rightarrow> real matrix \<Rightarrow> nat \<Rightarrow> nat \<Rightarrow> error + null_space_result" where
  "null_space_dense ext M k k_skip =
     (case eigh_eigvals ext M (0, k + k_skip) of
        Inl x \<Rightarrow> Inl (Raised x)
      | Inr (eigen_values, eigen_vectors) \<Rightarrow>
          Inr (null_space_of_pairs (Real_pairs eigen_values eigen_vectors) 0 k k_skip))"

text \<open>
  The amg/lobpcg branch. \<open>M\<close> is rebound to \<open>identity + M\<close> inside the \<open>try\<close>, before
  \<open>eigen_decomposition\<close> is called, so the handler of \<open>LinAlgError\<close> adds
  \<open>2.0 * identity\<close> to the rebound matrix (\<open>M1\<close> below).
\<close>

definition null_space_shifted ::
  "('p, 'g) externals \<Rightarrow> real matrix \<Rightarrow> nat \<Rightarrow> nat \<Rightarrow> string \<Rightarrow> 'g
     \<Rightarrow> error + null_space_result" where
  "null_space_shifted ext M k k_skip eigen_solver np_random =
     (let M1 = mat_add (identity (length M)) M;
          n_components = min (k + k_skip + 10) (length M1)
      in case eigen_decomposition ext M1 n_components eigen_solver np_random 0 False False of
           (Inr pairs, g) \<Rightarrow> Inr (null_space_of_pairs pairs 1 k k_skip)
         | (Inl (Raised LinAlgError), g) \<Rightarrow>
             (let M2 = mat_add (mat_scale 2 (identity (length M1))) M1;
                  n_components = min (k + k_skip + 10) (length M2)
              in case eigen_decomposition ext M2 n_components eigen_solver g 0 False False of
                   (Inr pairs, g') \<Rightarrow> Inr (null_space_of_pairs pairs 2 k k_skip)
                 | (Inl e, g') \<Rightarrow> Inl e)
         | (Inl e, g) \<Rightarrow> Inl e)"

definition null_space ::
  "('p, 'g) externals \<Rightarrow> real matrix \<Rightarrow> nat \<Rightarrow> nat \<Rightarrow> string \<Rightarrow> real \<Rightarrow> nat \<Rightarrow> 'g \<Rightarrow> 'g
     \<Rightarrow> error + null_space_result" where
  "null_space ext M k k_skip eigen_solver tol max_iter random_state np_random =
     (case check_eigen_solver (PYAMG_LOADED ext) eigen_solver
             (Some (int (length M))) (Some (int (k + k_skip))) of
        Inl e \<Rightarrow> Inl e
      | Inr eigen_solver \<Rightarrow>
          if eigen_solver = ''arpack'' then
            null_space_arpack ext M k k_skip tol max_iter random_state
          else if eigen_solver = ''dense'' then
            null_space_dense ext M k k_skip
          else if eigen_solver = ''amg'' \<or> eigen_solver = ''lobpcg'' then
            null_space_shifted ext M k k_skip eigen_solver np_random
          else Inl (Unrecognized_null_space_solver eigen_solver))"

section \<open>The specification's statements about the solvers\<close>

text \<open>
  The order the specification promises for the eigenvalues: not increasing when
  \<open>largest\<close>, not decreasing otherwise.
\<close>

definition ordered_for :: "bool \<Rightarrow> real list \<Rightarrow> bool" where
  "ordered_for largest lambdas = (if largest then sorted (rev lambdas) else sorted lambdas)"

text \<open>
  The amg and lobpcg modes as the specification words them: block conjugate gradient
  on an initial random block of \<open>min(N, 5 + 2k)\<close> vectors, its first column set to the
  diagonal of the matrix when \<open>seeded\<close>, with the preconditioner \<open>M\<close> when there is
  one; the eigenpairs sorted by eigenvalue, ascending, reversed if \<open>largest\<close>; the first
  \<open>k\<close> kept.
\<close>

definition block_cg_spec ::
  "('p, 'g) externals \<Rightarrow> real matrix \<Rightarrow> nat \<Rightarrow> 'g \<Rightarrow> bool \<Rightarrow> 'p option \<Rightarrow> bool
     \<Rightarrow> (error + eigenpairs) \<times> 'g" where
  "block_cg_spec ext G k random_state largest M seeded =
     (case rand ext random_state (length G) (min (length G) (5 + 2 * k)) of
        (block, rs) \<Rightarrow>
          (case lobpcg ext G
                  (if seeded then map2 (\<lambda>row d. row[0 := d]) block (diagonal G) else block)
                  M largest of
             Inl x \<Rightarrow> (Inl (Raised x), rs)
           | Inr (lambdas, vectors) \<Rightarrow>
               (Inr (Real_pairs
                       (take k (if largest then rev (sort lambdas) else sort lambdas))
                       (map (\<lambda>row. take k (if largest then rev (fancy row (argsort lambdas))
                                             else fancy row (argsort lambdas))) vectors)), rs)))"

text \<open>
  The amg/lobpcg branch of \<open>null_space\<close> as the specification words it: the smallest
  eigenpairs of \<open>I + M\<close>, the shift 1 subtracted; after a numerical failure one more
  attempt on \<open>2I + M\<close> for the matrix \<open>M\<close> that was passed, the shift 2 subtracted.
\<close>

definition null_space_shifted_spec ::
  "('p, 'g) externals \<Rightarrow> real matrix \<Rightarrow> nat \<Rightarrow> nat \<Rightarrow> string \<Rightarrow> 'g
     \<Rightarrow> error + null_space_result" where
  "null_space_shifted_spec ext M k k_skip eigen_solver np_random =
     (let n_components = min (k + k_skip + 10) (length M)
      in case eigen_decomposition ext (mat_add (identity (length M)) M) n_components
                eigen_solver np_random 0 False False of
           (Inr pairs, g) \<Rightarrow> Inr (null_space_of_pairs pairs 1 k k_skip)
         | (Inl (Raised LinAlgError), g) \<Rightarrow>
             (case eigen_decomposition ext (mat_add (mat_scale 2 (identity (length M))) M)
                     n_components eigen_solver g 0 False False of
                (Inr pairs, g') \<Rightarrow> Inr (null_space_of_pairs pairs 2 k k_skip)
              | (Inl e, g') \<Rightarrow> Inl e)
         | (Inl e, g) \<Rightarrow> Inl e)"

section \<open>Example numerical routines\<close>

text \<open>
  Routines that are exact on a diagonal matrix whose diagonal is ascending: the
  eigenvalues are the diagonal entries and the eigenvectors the unit vectors. \<open>eigsh\<close>
  and \<open>eigh\<close> return them in ascending order, as ARPACK and LAPACK do; \<open>lobpcg\<close>
  returns as many pairs as the block has columns, and raises \<open>LinAlgError\<close> on the one
  matrix \<open>bad\<close>. The generator state counts the draws.
\<close>

definition exact_externals :: "real matrix \<Rightarrow> (unit, int) externals" where
  "exact_externals bad =
     \<lparr>PYAMG_LOADED = True,
      eigsh = (\<lambda>G k which tol v0.
         Inr (if which = ''LM''
              then (drop (length G - k) (diagonal G),
                    map (drop (length G - k)) (identity (length G)))
              else (take k (diagonal G), map (take k) (identity (length G))))),
      eigs = (\<lambda>G k which tol.
         Inr (if which = ''LR''
              then (map complex_of_real (drop (length G - k) (diagonal G)),
                    map (\<lambda>row. map complex_of_real (drop (length G - k) row))
                      (identity (length G)))
              else (map complex_of_real (take k (diagonal G)),
                    map (\<lambda>row. map complex_of_real (take k row)) (identity (length G))))),
      eigsh_sigma = (\<lambda>M k sigma tol maxiter v0.
         Inr (take k (diagonal M), map (take k) (identity (length M)))),
      eigh = (\<lambda>G. Inr (diagonal G, identity (length G))),
      eigh_eigvals = (\<lambda>M r. case r of (lo, hi) \<Rightarrow>
         Inr (slice lo (hi + 1) (diagonal M), map (slice lo (hi + 1)) (identity (length M)))),
      eig = (\<lambda>G. Inr (map complex_of_real (diagonal G),
                     map (map complex_of_real) (identity (length G)))),
      smoothed_aggregation_solver = (\<lambda>G. Inr ()),
      lobpcg = (\<lambda>G X M largest.
         if G = bad then Inl LinAlgError
         else (let m = (case X of [] \<Rightarrow> 0 | row # rows \<Rightarrow> length row) in
               Inr (if largest
                    then (rev (drop (length G - m) (diagonal G)),
                          map (\<lambda>row. rev (drop (length G - m) row)) (identity (length G)))
                    else (take m (diagonal G), map (take m) (identity (length G)))))),
      check_array_csr = (\<lambda>G. Inr G),
      uniform = (\<lambda>g lo hi n. (replicate n lo, g + 1)),
      rand = (\<lambda>g n m. (replicate n (replicate m 0), g + 1))\<rparr>"

text \<open>
  The same with a \<open>lobpcg\<close> that reports the block it was given: the first column of the
  block as eigenvalues, the block as eigenvectors.
\<close>

definition probe_externals :: "(unit, int) externals" where
  "probe_externals = (exact_externals [])\<lparr>lobpcg := (\<lambda>G X M largest. Inr (map hd X, X))\<rparr>"

section \<open>geometry.py: the Geometry class\<close>

text \<open>
  Arrays are objects: a field of a \<open>Geometry\<close> holds a reference (an index into the heap)
  or \<open>None\<close>. An object, once allocated, is not changed by any method of the class;
  \<open>.copy()\<close> allocates a new object with the same contents.
\<close>

datatype ndarray = Array2 "real list list" | Array1 "real list"

type_synonym heap = "ndarray list"

definition alloc :: "heap \<Rightarrow> ndarray \<Rightarrow> nat \<times> heap" where
  "alloc h v = (length h, h @ [v])"

text \<open>Keyword arguments: a dictionary from names to values.\<close>

datatype kwval = KBool bool | KNum real | KStr string

type_synonym kwds = "string \<rightharpoonup> kwval"

record geometry =
  adjacency_method :: string
  adjacency_kwds :: "kwds option"
  affinity_method :: string
  affinity_kwds :: "kwds option"
  laplacian_method :: string
  laplacian_kwds :: "kwds option"
  X :: "nat option"
  adjacency_matrix :: "nat option"
  affinity_matrix :: "nat option"
  laplacian_matrix :: "nat option"
  laplacian_symmetric :: "nat option"
  laplacian_weights :: "nat option"

text \<open>
  What the Laplacian collaborator returns: the Laplacian alone, or with \<open>full_output\<close>
  the Laplacian, its symmetric form and the weights.
\<close>

datatype laplacian_output = Lap_only ndarray | Lap_full ndarray ndarray ndarray

text \<open>
  The functions geometry.py imports, as parameters: \<open>compute_adjacency_matrix\<close> of
  .adjacency, \<open>compute_affinity_matrix\<close> of .affinity, \<open>compute_laplacian_matrix\<close> of
  .laplacian, each a function of the input array, the method name and the keyword
  arguments that returns a new array or raises; and
  \<open>check_array(_, accept_sparse=sparse_formats)\<close> of utils.validation.
\<close>

record collaborators =
  adjacency_compute :: "ndarray \<Rightarrow> string \<Rightarrow> kwds \<Rightarrow> exn + ndarray"
  affinity_compute :: "ndarray \<Rightarrow> string \<Rightarrow> kwds \<Rightarrow> exn + ndarray"
  laplacian_compute :: "ndarray \<Rightarrow> string \<Rightarrow> kwds \<Rightarrow> exn + laplacian_output"
  check_array_sparse :: "ndarray \<Rightarrow> exn + ndarray"

text \<open>What a method returns to its caller: one array, or a tuple of three arrays.\<close>

datatype returned = One nat | Three nat nat nat

definition Geometry_init ::
  "string \<Rightarrow> kwds option \<Rightarrow> string \<Rightarrow> kwds option \<Rightarrow> string \<Rightarrow> kwds option \<Rightarrow> geometry" where
  "Geometry_init adj_method adj_kwds aff_method aff_kwds lap_method lap_kwds =
     \<lparr>adjacency_method = adj_method, adjacency_kwds = adj_kwds,
      affinity_method = aff_method, affinity_kwds = aff_kwds,
      laplacian_method = lap_method, laplacian_kwds = lap_kwds,
      X = None, adjacency_matrix = None, affinity_matrix = None,
      laplacian_matrix = None, laplacian_symmetric = None, laplacian_weights = None\<rparr>"

text \<open>
  A method takes the object and the heap and returns its result (or the exception) with
  the object and the heap as it leaves them. \<open>dict(**(d or {}))\<close> followed by
  \<open>update(kwargs)\<close> is the map \<open>d ++ kwargs\<close>, built in a local variable.
\<close>

definition compute_adjacency_matrix ::
  "collaborators \<Rightarrow> bool \<Rightarrow> kwds \<Rightarrow> geometry \<times> heap \<Rightarrow> (error + nat) \<times> geometry \<times> heap" where
  "compute_adjacency_matrix c copy kwargs st =
     (case st of (self, h) \<Rightarrow>
        (case X self of
           None \<Rightarrow> (Inl No_data_matrix, (self, h))
         | Some x \<Rightarrow>
            (let adjacency_kwds =
                   (case adjacency_kwds self of None \<Rightarrow> Map.empty | Some d \<Rightarrow> d) ++ kwargs
             in case adjacency_compute c (h ! x) (adjacency_method self) adjacency_kwds of
                  Inl e \<Rightarrow> (Inl (Raised e), (self, h))
                | Inr A \<Rightarrow>
                   (case alloc h A of
                      (a, h1) \<Rightarrow>
                        (let self = self\<lparr>adjacency_matrix := Some a\<rparr> in
                         if copy then
                           (case alloc h1 (h1 ! a) of (b, h2) \<Rightarrow> (Inr b, (self, h2)))
                         else (Inr a, (self, h1)))))))"

definition compute_affinity_matrix ::
  "collaborators \<Rightarrow> bool \<Rightarrow> kwds \<Rightarrow> geometry \<times> heap \<Rightarrow> (error + nat) \<times> geometry \<times> heap" where
  "compute_affinity_matrix c copy kwargs st =
     (case (if adjacency_matrix (fst st) = None then
              (case compute_adjacency_matrix c False Map.empty st of
                 (Inl e, st') \<Rightarrow> (Some e, st')
               | (Inr r, st') \<Rightarrow> (None, st'))
            else (None, st)) of
        (Some e, st') \<Rightarrow> (Inl e, st')
      | (None, (self, h)) \<Rightarrow>
         (case adjacency_matrix self of
            None \<Rightarrow> (Inl (Raised (OtherException ''adjacency_matrix is None'')), (self, h))
          | Some adj \<Rightarrow>
             (let affinity_kwds =
                    (case affinity_kwds self of None \<Rightarrow> Map.empty | Some d \<Rightarrow> d) ++ kwargs
              in case affinity_compute c (h ! adj) (affinity_method self) affinity_kwds of
                   Inl e \<Rightarrow> (Inl (Raised e), (self, h))
                 | Inr A \<Rightarrow>
                    (case alloc h A of
                       (a, h1) \<Rightarrow>
                         (let self = self\<lparr>affinity_matrix := Some a\<rparr> in
                          if copy then
                            (case alloc h1 (h1 ! a) of (b, h2) \<Rightarrow> (Inr b, (self, h2)))
                          else (Inr a, (self, h1)))))))"

text \<open>
  \<open>compute_laplacian_matrix(copy=True, return_lapsym=False, **kwargs)\<close>. With
  \<open>return_lapsym\<close> the result of the collaborator is unpacked into the three fields,
  otherwise it is stored in \<open>laplacian_matrix\<close>; a reply of the other shape is outside
  the collaborator's interface and is modelled as an exception. The \<open>return\<close> statements
  are the same in both cases: \<open>self.laplacian_matrix\<close> or its copy.
\<close>

definition compute_laplacian_matrix ::
  "collaborators \<Rightarrow> bool \<Rightarrow> bool \<Rightarrow> kwds \<Rightarrow> geometry \<times> heap
     \<Rightarrow> (error + returned) \<times> geometry \<times> heap" where
  "compute_laplacian_matrix c copy return_lapsym kwargs st =
     (case (if affinity_matrix (fst st) = None then
              (case compute_affinity_matrix c False Map.empty st of
                 (Inl e, st') \<Rightarrow> (Some e, st')
               | (Inr r, st') \<Rightarrow> (None, st'))
            else (None, st)) of
        (Some e, st') \<Rightarrow> (Inl e, st')
      | (None, (self, h)) \<Rightarrow>
         (case affinity_matrix self of
            None \<Rightarrow> (Inl (Raised (OtherException ''affinity_matrix is None'')), (self, h))
          | Some aff \<Rightarrow>
             (let laplacian_kwds =
                    (case laplacian_kwds self of None \<Rightarrow> Map.empty | Some d \<Rightarrow> d) ++ kwargs;
                  laplacian_kwds = laplacian_kwds(''full_output'' \<mapsto> KBool return_lapsym)
              in case laplacian_compute c (h ! aff) (laplacian_method self) laplacian_kwds of
                   Inl e \<Rightarrow> (Inl (Raised e), (self, h))
                 | Inr result \<Rightarrow>
                    (case (if return_lapsym then
                             (case result of
                                Lap_full L S W \<Rightarrow>
                                  (case alloc h L of (l, h1) \<Rightarrow>
                                   case alloc h1 S of (s, h2) \<Rightarrow>
                                   case alloc h2 W of (w, h3) \<Rightarrow>
                                     Some (self\<lparr>laplacian_matrix := Some l,
                                                 laplacian_symmetric := Some s,
                                                 laplacian_weights := Some w\<rparr>, h3, l))
                              | Lap_only L \<Rightarrow> None)
                           else
                             (case result of
                                Lap_only L \<Rightarrow>
                                  (case alloc h L of (l, h1) \<Rightarrow>
                                     Some (self\<lparr>laplacian_matrix := Some l\<rparr>, h1, l))
                              | Lap_full L S W \<Rightarrow> None)) of
                       None \<Rightarrow> (Inl (Raised (OtherException ''full_output'')), (self, h))
                     | Some (self, h', l) \<Rightarrow>
                         if copy then
                           (case alloc h' (h' ! l) of (b, h'') \<Rightarrow> (Inr (One b), (self, h'')))
                         else (Inr (One l), (self, h'))))))"

text \<open>
  The setters validate the array and store the validated array (given by its contents,
  kept as a new object); the deleters clear one field.
\<close>

definition shape0 :: "ndarray \<Rightarrow> nat" where
  "shape0 A = (case A of Array2 rows \<Rightarrow> length rows | Array1 v \<Rightarrow> length v)"

definition shape1 :: "ndarray \<Rightarrow> nat option" where
  "shape1 A = (case A of Array2 rows \<Rightarrow> Some (case rows of [] \<Rightarrow> 0 | r # rs \<Rightarrow> length r)
               | Array1 v \<Rightarrow> None)"

definition set_data_matrix ::
  "collaborators \<Rightarrow> ndarray \<Rightarrow> geometry \<times> heap \<Rightarrow> (error + unit) \<times> geometry \<times> heap" where
  "set_data_matrix c Xv st =
     (case st of (self, h) \<Rightarrow>
        (case check_array_sparse c Xv of
           Inl e \<Rightarrow> (Inl (Raised e), (self, h))
         | Inr Xv \<Rightarrow> (case alloc h Xv of (a, h1) \<Rightarrow> (Inr (), (self\<lparr>X := Some a\<rparr>, h1)))))"

definition set_adjacency_matrix ::
  "collaborators \<Rightarrow> ndarray \<Rightarrow> geometry \<times> heap \<Rightarrow> (error + unit) \<times> geometry \<times> heap" where
  "set_adjacency_matrix c adjacency_mat st =
     (case st of (self, h) \<Rightarrow>
        (case check_array_sparse c adjacency_mat of
           Inl e \<Rightarrow> (Inl (Raised e), (self, h))
         | Inr adjacency_mat \<Rightarrow>
            (case shape1 adjacency_mat of
               None \<Rightarrow> (Inl (Raised (OtherException ''IndexError'')), (self, h))
             | Some n1 \<Rightarrow>
                 if shape0 adjacency_mat \<noteq> n1
                 then (Inl (Not_square ''adjacency matrix is not square''), (self, h))
                 else (case alloc h adjacency_mat of
                         (a, h1) \<Rightarrow> (Inr (), (self\<lparr>adjacency_matrix := Some a\<rparr>, h1))))))"

definition set_affinity_matrix ::
  "collaborators \<Rightarrow> ndarray \<Rightarrow> geometry \<times> heap \<Rightarrow> (error + unit) \<times> geometry \<times> heap" where
  "set_affinity_matrix c affinity_mat st =
     (case st of (self, h) \<Rightarrow>
        (case check_array_sparse c affinity_mat of
           Inl e \<Rightarrow> (Inl (Raised e), (self, h))
         | Inr affinity_mat \<Rightarrow>
            (case shape1 affinity_mat of
               None \<Rightarrow> (Inl (Raised (OtherException ''IndexError'')), (self, h))
             | Some n1 \<Rightarrow>
                 if shape0 affinity_mat \<noteq> n1
                 then (Inl (Not_square ''affinity matrix is not square''), (self, h))
                 else (case alloc h affinity_mat of
                         (a, h1) \<Rightarrow> (Inr (), (self\<lparr>affinity_matrix := Some a\<rparr>, h1))))))"

definition set_laplacian_matrix ::
  "collaborators \<Rightarrow> ndarray \<Rightarrow> geometry \<times> heap \<Rightarrow> (error + unit) \<times> geometry \<times> heap" where
  "set_laplacian_matrix c laplacian_mat st =
     (case st of (self, h) \<Rightarrow>
        (case check_array_sparse c laplacian_mat of
           Inl e \<Rightarrow> (Inl (Raised e), (self, h))
         | Inr laplacian_mat \<Rightarrow>
            (case shape1 laplacian_mat of
               None \<Rightarrow> (Inl (Raised (OtherException ''IndexError'')), (self, h))
             | Some n1 \<Rightarrow>
                 if shape0 laplacian_mat \<noteq> n1
                 then (Inl (Not_square ''Laplacian matrix is not square''), (self, h))
                 else (case alloc h laplacian_mat of
                         (a, h1) \<Rightarrow> (Inr (), (self\<lparr>laplacian_matrix := Some a\<rparr>, h1))))))"

definition delete_data_matrix :: "geometry \<times> heap \<Rightarrow> geometry \<times> heap" where
  "delete_data_matrix st = (case st of (self, h) \<Rightarrow> (self\<lparr>X := None\<rparr>, h))"

definition delete_adjacency_matrix :: "geometry \<times> heap \<Rightarrow> geometry \<times> heap" where
  "delete_adjacency_matrix st = (case st of (self, h) \<Rightarrow> (self\<lparr>adjacency_matrix := None\<rparr>, h))"

definition delete_affinity_matrix :: "geometry \<times> heap \<Rightarrow> geometry \<times> heap" where
  "delete_affinity_matrix st = (case st of (self, h) \<Rightarrow> (self\<lparr>affinity_matrix := None\<rparr>, h))"

definition delete_laplacian_matrix :: "geometry \<times> heap \<Rightarrow> geometry \<times> heap" where
  "delete_laplacian_matrix st = (case st of (self, h) \<Rightarrow> (self\<lparr>laplacian_matrix := None\<rparr>, h))"

section \<open>Example collaborators\<close>

text \<open>
  A small instance of the collaborators, to run the methods on concrete stores: the
  adjacency function returns a two-point graph whose distance is the keyword \<open>radius\<close>
  (1 when the keyword is absent), the affinity function returns its input, the Laplacian
  function honours \<open>full_output\<close>, and validation accepts every array.
\<close>

definition example_collaborators :: collaborators where
  "example_collaborators =
     \<lparr>adjacency_compute =
        (\<lambda>A m kw. Inr (case kw ''radius'' of
                          Some (KNum r) \<Rightarrow> Array2 [[0, r], [r, 0]]
                        | _ \<Rightarrow> Array2 [[0, 1], [1, 0]])),
      affinity_compute = (\<lambda>A m kw. Inr A),
      laplacian_compute =
        (\<lambda>A m kw. Inr (if kw ''full_output'' = Some (KBool True)
                         then Lap_full A A (Array1 [1, 1]) else Lap_only A)),
      check_array_sparse = (\<lambda>A. Inr A)\<rparr>"

text \<open>A store whose data set has been set on a new \<open>Geometry()\<close>.\<close>

definition example_store :: "geometry \<times> heap" where
  "example_store =
     snd (set_data_matrix example_collaborators (Array2 [[0], [1]])
            (Geometry_init ''auto'' None ''auto'' None ''auto'' None, []))"

text \<open>A store on which an adjacency matrix has been set and no data set.\<close>

definition injected_store :: "geometry \<times> heap" where
  "injected_store =
     snd (set_adjacency_matrix example_collaborators (Array2 [[0, 1], [1, 0]])
            (Geometry_init ''auto'' None ''auto'' None ''auto'' None, []))"

section \<open>Solver selection: proofs\<close>

lemma check_eigen_solver_auto_aux:
  "check_eigen_solver p ''auto'' (Some sz) (Some nv) =
     Inr (if sz > 200 \<and> nv < 10 then (if p then ''amg'' else ''arpack'') else ''dense'')"
  by (simp add: check_eigen_solver_def EIGEN_SOLVERS_def)

text \<open>
  C8. With the requested solver \<open>'auto'\<close> and both the size and the number of vectors
  given, \<open>check_eigen_solver\<close> returns \<open>'amg'\<close> exactly when the size is above 200, fewer
  than 10 vectors are asked for and pyamg is loaded; \<open>'arpack'\<close> exactly when the size is
  above 200, fewer than 10 vectors are asked for and pyamg is absent; and \<open>'dense'\<close>
  exactly in the remaining cases. It never raises.
\<close>

theorem check_eigen_solver_auto:
  "(check_eigen_solver p ''auto'' (Some sz) (Some nv) = Inr ''amg'') = (sz > 200 \<and> nv < 10 \<and> p)
   \<and> (check_eigen_solver p ''auto'' (Some sz) (Some nv) = Inr ''arpack'')
        = (sz > 200 \<and> nv < 10 \<and> \<not> p)
   \<and> (check_eigen_solver p ''auto'' (Some sz) (Some nv) = Inr ''dense'')
        = (\<not> (sz > 200 \<and> nv < 10))
   \<and> check_eigen_solver p ''auto'' (Some sz) (Some nv)
        \<in> {Inr ''amg'', Inr ''arpack'', Inr ''dense''}"
  by (auto simp: check_eigen_solver_auto_aux)

theorem check_eigen_solver_auto_witness:
  "check_eigen_solver True ''auto'' (Some 500) (Some 5) = Inr ''amg''
   \<and> check_eigen_solver False ''auto'' (Some 500) (Some 5) = Inr ''arpack''
   \<and> check_eigen_solver True ''auto'' (Some 200) (Some 5) = Inr ''dense''
   \<and> check_eigen_solver True ''auto'' (Some 500) (Some 10) = Inr ''dense''"
  using check_eigen_solver_auto [of True 500 5] check_eigen_solver_auto [of False 500 5]
    check_eigen_solver_auto [of True 200 5] check_eigen_solver_auto [of True 500 10]
  by simp

lemma check_eigen_solver_resolved:
  "check_eigen_solver p s (Some sz) (Some nv) = Inr r \<Longrightarrow>
     r = ''arpack'' \<or> r = ''dense'' \<or> r = ''amg'' \<or> r = ''lobpcg''"
  by (auto simp: check_eigen_solver_def EIGEN_SOLVERS_def split: if_splits)

lemma check_eigen_solver_errors:
  "check_eigen_solver p s sz nv = Inl e \<Longrightarrow>
     e = Unrecognized_eigen_solver s \<or> e = Pyamg_unavailable"
  by (auto simp: check_eigen_solver_def split: if_splits option.splits)

section \<open>The exceptions of eigen_decomposition and null_space\<close>

lemma arpack_path_errors:
  "arpack_path ext G n rs tol largest symm = (Inl e, g) \<Longrightarrow> \<exists>x. e = Raised x"
  by (auto simp: arpack_path_def split: prod.splits if_splits sum.splits)

lemma amg_path_errors:
  "amg_path ext G nn n rs largest symm = (Inl e, g) \<Longrightarrow>
     e = Requires_symmetric \<or> (\<exists>x. e = Raised x)"
  by (auto simp: amg_path_def Let_def split: prod.splits if_splits sum.splits)

lemma lobpcg_path_errors:
  "lobpcg_path ext G nn n rs largest symm = (Inl e, g) \<Longrightarrow>
     e = Requires_symmetric \<or> (\<exists>x. e = Raised x)"
  by (auto simp: lobpcg_path_def Let_def split: prod.splits if_splits sum.splits)

lemma dense_path_errors:
  "dense_path ext G n rs largest symm = (Inl e, g) \<Longrightarrow> \<exists>x. e = Raised x"
  by (auto simp: dense_path_def Let_def split: prod.splits if_splits sum.splits)

lemma eigen_decomposition_errors:
  assumes "eigen_decomposition ext G n s rs tol df largest = (Inl e, g)"
  shows "e \<noteq> Unrecognized_null_space_solver x"
proof (cases "check_eigen_solver (PYAMG_LOADED ext) s (Some (int (length G)))
                 (Some (int (if df then n + 1 else n)))")
  case (Inl e')
  with assms have "e = e'" by (simp add: eigen_decomposition_def Let_def)
  with Inl show ?thesis by (auto dest: check_eigen_solver_errors)
next
  case (Inr r)
  with assms show ?thesis
    by (auto simp: eigen_decomposition_def Let_def split: if_splits
        dest: arpack_path_errors amg_path_errors lobpcg_path_errors dense_path_errors)
qed

lemma null_space_arpack_errors:
  "null_space_arpack ext M k k_skip tol max_iter rs \<noteq> Inl (Unrecognized_null_space_solver x)"
  by (simp add: null_space_arpack_def split: prod.splits sum.splits exn.splits)

lemma null_space_dense_errors:
  "null_space_dense ext M k k_skip \<noteq> Inl (Unrecognized_null_space_solver x)"
  by (simp add: null_space_dense_def split: prod.splits sum.splits)

lemma null_space_shifted_errors:
  "null_space_shifted ext M k k_skip r g \<noteq> Inl (Unrecognized_null_space_solver x)"
proof -
  let ?M1 = "mat_add (identity (length M)) M"
  let ?M2 = "mat_add (mat_scale 2 (identity (length ?M1))) ?M1"
  let ?first =
    "eigen_decomposition ext ?M1 (min (k + k_skip + 10) (length ?M1)) r g 0 False False"
  let ?second =
    "\<lambda>g'. eigen_decomposition ext ?M2 (min (k + k_skip + 10) (length ?M2)) r g' 0 False False"
  have second:
    "(case ?second g' of
        (Inr pairs, g'') \<Rightarrow> Inr (null_space_of_pairs pairs 2 k k_skip)
      | (Inl e, g'') \<Rightarrow> Inl e) \<noteq> Inl (Unrecognized_null_space_solver x)" for g'
    by (cases "?second g'") (auto split: sum.splits dest: eigen_decomposition_errors)
  obtain res g' where first: "?first = (res, g')" by (cases ?first)
  show ?thesis
  proof (cases res)
    case (Inl e)
    with first have ne: "e \<noteq> Unrecognized_null_space_solver x"
      by (auto dest: eigen_decomposition_errors)
    show ?thesis
    proof (cases e)
      case (Raised ex)
      with first Inl second [of g'] show ?thesis
        unfolding null_space_shifted_def Let_def by (cases ex) simp_all
    qed (use first Inl ne in \<open>simp_all add: null_space_shifted_def Let_def\<close>)
  next
    case (Inr pairs)
    with first show ?thesis by (simp add: null_space_shifted_def Let_def)
  qed
qed

text \<open>
  C10. A solver name that \<open>check_eigen_solver\<close> accepts with both the size and the number
  of vectors given is resolved to one of \<open>'arpack'\<close>, \<open>'dense'\<close>, \<open>'amg'\<close>, \<open>'lobpcg'\<close>;
  \<open>null_space\<close> always gives both, so it never raises the error of its last branch.
\<close>

theorem null_space_unrecognized_unreachable:
  "(check_eigen_solver p s (Some sz) (Some nv) = Inr r
      \<longrightarrow> r \<in> {''arpack'', ''dense'', ''amg'', ''lobpcg''})
   \<and> null_space ext M k k_skip s tol max_iter rs g \<noteq> Inl (Unrecognized_null_space_solver x)"
proof
  show "check_eigen_solver p s (Some sz) (Some nv) = Inr r
          \<longrightarrow> r \<in> {''arpack'', ''dense'', ''amg'', ''lobpcg''}"
    using check_eigen_solver_resolved [of p s sz nv r] by auto
next
  show "null_space ext M k k_skip s tol max_iter rs g \<noteq> Inl (Unrecognized_null_space_solver x)"
  proof (cases "check_eigen_solver (PYAMG_LOADED ext) s
                   (Some (int (length M))) (Some (int (k + k_skip)))")
    case (Inl e)
    then show ?thesis by (auto simp: null_space_def dest: check_eigen_solver_errors)
  next
    case (Inr r')
    from check_eigen_solver_resolved [OF Inr] Inr show ?thesis
      by (auto simp: null_space_def null_space_arpack_errors null_space_dense_errors
            null_space_shifted_errors)
  qed
qed

theorem null_space_unrecognized_unreachable_witness:
  "check_eigen_solver False ''auto'' (Some 500) (Some 5) = Inr ''arpack''
   \<and> ''arpack'' \<in> {''arpack'', ''dense'', ''amg'', ''lobpcg''}
   \<and> check_eigen_solver True ''lobpcg'' (Some 10) (Some 3) = Inr ''dense''
   \<and> ''dense'' \<in> {''arpack'', ''dense'', ''amg'', ''lobpcg''}
   \<and> null_space (exact_externals []) [[0, 0], [0, 1]] 1 0 ''auto'' 0 100 0 0
       \<noteq> Inl (Unrecognized_null_space_solver ''auto'')"
proof -
  have a: "check_eigen_solver False ''auto'' (Some 500) (Some 5) = Inr ''arpack''"
    by (simp add: check_eigen_solver_def EIGEN_SOLVERS_def)
  have b: "check_eigen_solver True ''lobpcg'' (Some 10) (Some 3) = Inr ''dense''"
    by (simp add: check_eigen_solver_def EIGEN_SOLVERS_def)
  from a b
    null_space_unrecognized_unreachable [of False "''auto''" 500 5 "''arpack''"
      "exact_externals []" "[[0, 0], [0, 1]]" 1 0 0 100 0 0 "''auto''"]
    null_space_unrecognized_unreachable [of True "''lobpcg''" 10 3 "''dense''"]
  show ?thesis by blast
qed

section \<open>eigen_decomposition: the order of the eigenvalues\<close>

lemma fancy_argsort: "fancy v (argsort v) = sort v"
proof -
  let ?zs = "zip v [0..<length v]"
  have "\<forall>p \<in> set (sort_key fst ?zs). v ! snd p = fst p"
    by (auto simp: set_zip)
  then have idx: "map (\<lambda>i. v ! i) (map snd (sort_key fst ?zs)) = map fst (sort_key fst ?zs)"
    by (simp add: comp_def)
  have "mset (map fst (sort_key fst ?zs)) = image_mset fst (mset ?zs)" by simp
  also have "\<dots> = mset (map fst ?zs)" by (simp only: mset_map)
  also have "map fst ?zs = v" by simp
  finally have "mset (map fst (sort_key fst ?zs)) = mset v" .
  then have "sort v = map fst (sort_key fst ?zs)"
    by (rule properties_for_sort) (simp add: sorted_sort_key)
  with idx show ?thesis by (simp add: fancy_def argsort_def)
qed

lemma fancy_rev: "fancy v (rev index) = rev (fancy v index)"
  by (simp add: fancy_def rev_map)

lemma ordered_for_take_sort:
  "ordered_for largest (take n (if largest then rev (sort v) else sort v))"
proof (cases largest)
  case True
  have "rev (take n (rev (sort v))) = drop (length v - n) (sort v)"
    by (simp add: rev_take)
  then show ?thesis using True by (simp add: ordered_for_def sorted_wrt_drop)
next
  case False
  then show ?thesis by (simp add: ordered_for_def sorted_wrt_take)
qed

lemma lobpcg_path_ordered:
  assumes "lobpcg_path ext G nn n rs largest symm = (Inr (Real_pairs lambdas vectors), g)"
  shows "ordered_for largest lambdas"
proof -
  from assms obtain l0 where "lambdas = take n (if largest then rev (sort l0) else sort l0)"
    by (auto simp: lobpcg_path_def Let_def fancy_argsort fancy_rev
        split: if_splits prod.splits sum.splits)
  then show ?thesis by (simp only: ordered_for_take_sort)
qed

lemma amg_path_ordered:
  assumes "amg_path ext G nn n rs largest symm = (Inr (Real_pairs lambdas vectors), g)"
  shows "ordered_for largest lambdas"
proof -
  from assms obtain l0 where "lambdas = take n (if largest then rev (sort l0) else sort l0)"
    by (auto simp: amg_path_def Let_def fancy_argsort fancy_rev
        split: if_splits prod.splits sum.splits)
  then show ?thesis by (simp only: ordered_for_take_sort)
qed

lemma dense_path_ordered:
  assumes "dense_path ext G n rs largest True = (Inr (Real_pairs lambdas vectors), g)"
    and "\<And>l d. eigh ext G = Inr (l, d) \<Longrightarrow> sorted l"
  shows "ordered_for largest lambdas"
proof -
  from assms(1) obtain l0 d0 where e: "eigh ext G = Inr (l0, d0)"
    and l: "lambdas = take n (if largest then rev l0 else l0)"
    by (auto simp: dense_path_def Let_def split: if_splits prod.splits sum.splits)
  from assms(2) [OF e] have "sort l0 = l0" by (simp add: sorted_sort_id)
  with l have "lambdas = take n (if largest then rev (sort l0) else sort l0)" by simp
  then show ?thesis by (simp only: ordered_for_take_sort)
qed

lemma eigen_decomposition_ordered_except_arpack:
  assumes "eigen_decomposition ext G k s rs tol drop_first largest
             = (Inr (Real_pairs lambdas vectors), g)"
    and "is_symmetric G (1 / 10 ^ 8)"
    and "check_eigen_solver (PYAMG_LOADED ext) s (Some (int (length G)))
           (Some (int (if drop_first then k + 1 else k))) = Inr r"
    and "r \<noteq> ''arpack''"
    and "\<And>l d. eigh ext G = Inr (l, d) \<Longrightarrow> sorted l"
  shows "ordered_for largest lambdas"
  using assms
  by (auto simp: eigen_decomposition_def Let_def split: if_splits
      dest: lobpcg_path_ordered amg_path_ordered dense_path_ordered)

text \<open>
  C6. The amg, lobpcg and dense branches order the eigenvalues by the \<open>largest\<close> flag
  (lemma \<open>eigen_decomposition_ordered_except_arpack\<close>, the dense branch given that \<open>eigh\<close>
  returns ascending values). The arpack branch returns the values as \<open>eigsh\<close> delivers
  them: on the diagonal matrix with entries 1, 2, 3, two components and
  \<open>largest=True\<close>, an \<open>eigsh\<close> that returns ascending values gives 2, 3, which is not
  in the promised order, while the amg branch gives 3, 2 on the same input.
\<close>

theorem eigen_decomposition_arpack_order:
  "is_symmetric [[1, 0, 0], [0, 2, 0], [0, 0, 3]] (1 / 10 ^ 8)
   \<and> fst (eigen_decomposition (exact_externals []) [[1, 0, 0], [0, 2, 0], [0, 0, 3]] 2 ''arpack''
            0 0 False True) = Inr (Real_pairs [2, 3] [[0, 0], [1, 0], [0, 1]])
   \<and> \<not> ordered_for True [2, 3]
   \<and> fst (eigen_decomposition (exact_externals []) [[1, 0, 0], [0, 2, 0], [0, 0, 3]] 2 ''amg''
            0 0 False True) = Inr (Real_pairs [3, 2] [[0, 0], [0, 1], [1, 0]])"
  by code_simp

section \<open>eigen_decomposition: the lobpcg and amg branches\<close>

lemma lobpcg_path_block_cg:
  "lobpcg_path ext G (length G) k rs largest True = block_cg_spec ext G k rs largest None False"
  by (simp add: lobpcg_path_def block_cg_spec_def Let_def fancy_argsort fancy_rev fancy_cols_def
      split: prod.split sum.split)

lemma amg_path_block_cg:
  assumes "check_array_csr ext G = Inr G'" and "smoothed_aggregation_solver ext G' = Inr M"
    and "G \<noteq> []"
  shows "amg_path ext G (length G) k rs largest True
           = block_cg_spec ext G k rs largest (Some M) True"
proof -
  from assms(3) have nz: "(min (length G) (5 + 2 * k) = 0) = False" by simp
  obtain block rs' where r: "rand ext rs (length G) (min (length G) (5 + 2 * k)) = (block, rs')"
    by (cases "rand ext rs (length G) (min (length G) (5 + 2 * k))")
  show ?thesis
    unfolding amg_path_def block_cg_spec_def Let_def r nz using assms(1,2)
    by (simp add: fancy_argsort fancy_rev fancy_cols_def split: sum.split)
qed

text \<open>
  C7, as stated, fails: the lobpcg branch does not set the first column of its block to
  the diagonal. With the \<open>lobpcg\<close> that reports its block, on twice the identity of size
  6 the branch differs from the seeded run without preconditioner.
\<close>

theorem lobpcg_block_not_seeded:
  "is_symmetric (mat_scale 2 (identity 6)) (1 / 10 ^ 8)
   \<and> eigen_decomposition probe_externals (mat_scale 2 (identity 6)) 0 ''lobpcg'' 0 0 True True
       \<noteq> block_cg_spec probe_externals (mat_scale 2 (identity 6)) 1 0 True None True"
  by code_simp

text \<open>
  C7, amended. For a symmetric matrix large enough for lobpcg to be kept, and the same
  generator state, the lobpcg branch is block conjugate gradient on the random block of
  \<open>min(N, 5 + 2k)\<close> vectors as drawn, without preconditioner, and the amg branch (pyamg
  loaded, the preconditioner built) is the same on the block with its first column set
  to the diagonal, with the preconditioner; both sort and keep the first \<open>k\<close> eigenpairs
  in the same way.
\<close>

theorem lobpcg_amg_block_cg:
  assumes "is_symmetric G (1 / 10 ^ 8)"
    and "5 * (if drop_first then k + 1 else k) + 1 \<le> length G"
    and "PYAMG_LOADED ext"
    and "check_array_csr ext G = Inr G'"
    and "smoothed_aggregation_solver ext G' = Inr M"
  shows "eigen_decomposition ext G k ''lobpcg'' rs tol drop_first largest
           = block_cg_spec ext G (if drop_first then k + 1 else k) rs largest None False
       \<and> eigen_decomposition ext G k ''amg'' rs tol drop_first largest
           = block_cg_spec ext G (if drop_first then k + 1 else k) rs largest (Some M) True"
proof -
  let ?k = "if drop_first then k + 1 else k"
  have keep: "\<not> int (length G) < 5 * int ?k + 1" using assms(2) by (auto split: if_splits)
  have l: "check_eigen_solver (PYAMG_LOADED ext) ''lobpcg'' (Some (int (length G))) (Some (int ?k))
             = Inr ''lobpcg''"
    using keep by (simp add: check_eigen_solver_def EIGEN_SOLVERS_def)
  have a: "check_eigen_solver (PYAMG_LOADED ext) ''amg'' (Some (int (length G))) (Some (int ?k))
             = Inr ''amg''"
    using assms(3) by (simp add: check_eigen_solver_def EIGEN_SOLVERS_def)
  have "G \<noteq> []" using assms(2) by auto
  note ap = amg_path_block_cg [OF assms(4,5) this, of ?k rs largest]
  note lp = lobpcg_path_block_cg [of ext G ?k rs largest]
  show ?thesis
    unfolding eigen_decomposition_def Let_def l a using lp ap assms(1) by simp
qed


theorem lobpcg_amg_block_cg_witness:
  "is_symmetric (mat_scale 2 (identity 6)) (1 / 10 ^ 8)
   \<and> 5 * (if True then 0 + 1 else 0) + 1 \<le> length (mat_scale 2 (identity 6))
   \<and> PYAMG_LOADED probe_externals
   \<and> check_array_csr probe_externals (mat_scale 2 (identity 6)) = Inr (mat_scale 2 (identity 6))
   \<and> smoothed_aggregation_solver probe_externals (mat_scale 2 (identity 6)) = Inr ()
   \<and> eigen_decomposition probe_externals (mat_scale 2 (identity 6)) 0 ''lobpcg'' 0 0 True True
       = (Inr (Real_pairs [0] [[0], [0], [0], [0], [0], [0]]), 1)
   \<and> eigen_decomposition probe_externals (mat_scale 2 (identity 6)) 0 ''amg'' 0 0 True True
       = (Inr (Real_pairs [2] [[0], [0], [0], [0], [0], [0]]), 1)"
proof -
  let ?G = "mat_scale 2 (identity 6)"
  have a: "is_symmetric ?G (1 / 10 ^ 8)" by code_simp
  have b: "5 * (if True then 0 + 1 else 0) + 1 \<le> length ?G" by code_simp
  have c: "PYAMG_LOADED probe_externals" by code_simp
  have d: "check_array_csr probe_externals ?G = Inr ?G" by code_simp
  have e: "smoothed_aggregation_solver probe_externals ?G = Inr ()" by code_simp
  have l: "block_cg_spec probe_externals ?G (if True then 0 + 1 else 0) 0 True None False
             = (Inr (Real_pairs [0] [[0], [0], [0], [0], [0], [0]]), 1)" by code_simp
  have m: "block_cg_spec probe_externals ?G (if True then 0 + 1 else 0) 0 True (Some ()) True
             = (Inr (Real_pairs [2] [[0], [0], [0], [0], [0], [0]]), 1)" by code_simp
  note lobpcg_amg_block_cg [where G = ?G and drop_first = True and k = 0
      and ext = probe_externals and G' = ?G and M = "()" and rs = 0 and tol = 0
      and largest = True, OF a b c d e]
  with a b c d e l m show ?thesis by simp
qed

section \<open>null_space: the shift and the retry\<close>

lemma null_space_shifted_first_attempt:
  assumes "eigen_decomposition ext (mat_add (identity (length M)) M)
             (min (k + k_skip + 10) (length (mat_add (identity (length M)) M)))
             eigen_solver g 0 False False = (Inr pairs, g')"
  shows "null_space_shifted ext M k k_skip eigen_solver g
           = Inr (null_space_of_pairs pairs 1 k k_skip)"
  using assms by (simp add: null_space_shifted_def Let_def)

lemma null_space_shifted_retry:
  assumes "eigen_decomposition ext (mat_add (identity (length M)) M)
             (min (k + k_skip + 10) (length (mat_add (identity (length M)) M)))
             eigen_solver g 0 False False = (Inl (Raised LinAlgError), g')"
    and "M1 = mat_add (identity (length M)) M"
    and "eigen_decomposition ext (mat_add (mat_scale 2 (identity (length M1))) M1)
             (min (k + k_skip + 10) (length (mat_add (mat_scale 2 (identity (length M1))) M1)))
             eigen_solver g' 0 False False = (Inr pairs, g'')"
  shows "null_space_shifted ext M k k_skip eigen_solver g
           = Inr (null_space_of_pairs pairs 2 k k_skip)"
  using assms by (simp add: null_space_shifted_def Let_def)

lemma example_first_attempt:
  "eigen_decomposition (exact_externals [[1, 0], [0, 2]]) [[1, 0], [0, 2]] (Suc (Suc 0)) ''amg''
     0 0 False False = (Inl (Raised LinAlgError), 1)"
  by code_simp

lemma example_retry:
  "eigen_decomposition (exact_externals [[1, 0], [0, 2]]) [[3, 0], [0, 4]] (Suc (Suc 0)) ''amg''
     1 0 False False = (Inr (Real_pairs [3, 4] [[1, 0], [0, 1]]), 2)"
  by code_simp

lemma example_retry_spec:
  "eigen_decomposition (exact_externals [[1, 0], [0, 2]]) [[2, 0], [0, 3]] (Suc (Suc 0)) ''amg''
     1 0 False False = (Inr (Real_pairs [2, 3] [[1, 0], [0, 1]]), 2)"
  by code_simp

lemma example_shifts:
  "mat_add (identity (length [[0, 0], [0, 1::real]])) [[0, 0], [0, 1]] = [[1, 0], [0, 2]]"
  "mat_add (mat_scale 2 (identity (length [[1, 0], [0, 2::real]]))) [[1, 0], [0, 2]]
     = [[3, 0], [0, 4]]"
  "mat_add (mat_scale 2 (identity (length [[0, 0], [0, 1::real]]))) [[0, 0], [0, 1]]
     = [[2, 0], [0, 3]]"
  by code_simp+

lemma example_argsort: "argsort [1, 2] = [0, 1]" "argsort [0, 1] = [0, 1]"
  by code_simp+

lemma example_select:
  "null_space_of_pairs (Real_pairs [3, 4] [[1, 0], [0, 1]]) 2 (Suc 0) 0
     = Real_null [[1, 0], [0, 1]] 3"
  "null_space_of_pairs (Real_pairs [2, 3] [[1, 0], [0, 1]]) 2 (Suc 0) 0
     = Real_null [[1, 0], [0, 1]] 1"
  by (simp_all add: null_space_of_pairs_def shift_sort_select_def example_argsort fancy_def
      fancy_cols_def slice_def)

text \<open>
  C3. The first attempt solves \<open>I + M\<close> and subtracts 1. The retry after \<open>LinAlgError\<close>
  does not solve \<open>2I + M\<close>: \<open>M\<close> has been rebound to \<open>I + M\<close>, so the retry solves
  \<open>2I + (I + M)\<close> and subtracts 2. On the diagonal matrix with entries 0, 1, when the
  first attempt fails, the code returns the eigenvalue sum 3 (the values 1, 2, which are
  eigenvalues of \<open>I + M\<close>), where the retry on the matrix that was passed returns 1 (the
  values 0, 1).
\<close>

theorem null_space_retry_shift:
  "is_symmetric [[0, 0], [0, 1]] (1 / 10 ^ 8)
   \<and> null_space (exact_externals [[1, 0], [0, 2]]) [[0, 0], [0, 1]] 1 0 ''amg'' 0 100 0 0
     = Inr (Real_null [[1, 0], [0, 1]] 3)
   \<and> null_space_shifted_spec (exact_externals [[1, 0], [0, 2]]) [[0, 0], [0, 1]] 1 0 ''amg'' 0
     = Inr (Real_null [[1, 0], [0, 1]] 1)"
proof -
  have c: "check_eigen_solver (PYAMG_LOADED (exact_externals [[1, 0], [0, 2]])) ''amg''
             (Some (int (length [[0, 0], [0, 1::real]]))) (Some (int (1 + 0))) = Inr ''amg''"
    by code_simp
  have code: "null_space_shifted (exact_externals [[1, 0], [0, 2]]) [[0, 0], [0, 1]] 1 0 ''amg'' 0
          = Inr (Real_null [[1, 0], [0, 1]] 3)"
    unfolding null_space_shifted_def Let_def example_shifts
    by (simp add: example_first_attempt example_retry example_select)
  have spec: "null_space_shifted_spec (exact_externals [[1, 0], [0, 2]]) [[0, 0], [0, 1]] 1 0
            ''amg'' 0 = Inr (Real_null [[1, 0], [0, 1]] 1)"
    unfolding null_space_shifted_spec_def Let_def example_shifts
    by (simp add: example_first_attempt example_retry_spec example_select)
  have s: "is_symmetric [[0, 0], [0, 1]] (1 / 10 ^ 8)" by code_simp
  from s c code spec show ?thesis by (simp add: null_space_def)
qed

section \<open>Geometry: the example stores\<close>

lemma example_store_eq:
  "example_store =
     (\<lparr>adjacency_method = ''auto'', adjacency_kwds = None,
       affinity_method = ''auto'', affinity_kwds = None,
       laplacian_method = ''auto'', laplacian_kwds = None,
       X = Some 0, adjacency_matrix = None, affinity_matrix = None,
       laplacian_matrix = None, laplacian_symmetric = None, laplacian_weights = None\<rparr>,
      [Array2 [[0], [1]]])"
  by (simp add: example_store_def set_data_matrix_def example_collaborators_def alloc_def
      Geometry_init_def)

lemma injected_store_eq:
  "injected_store =
     (\<lparr>adjacency_method = ''auto'', adjacency_kwds = None,
       affinity_method = ''auto'', affinity_kwds = None,
       laplacian_method = ''auto'', laplacian_kwds = None,
       X = None, adjacency_matrix = Some 0, affinity_matrix = None,
       laplacian_matrix = None, laplacian_symmetric = None, laplacian_weights = None\<rparr>,
      [Array2 [[0, 1], [1, 0]]])"
  by (simp add: injected_store_def set_adjacency_matrix_def example_collaborators_def alloc_def
      Geometry_init_def shape0_def shape1_def)

lemma example_laplacian:
  "compute_laplacian_matrix example_collaborators False True Map.empty example_store =
     (Inr (One 3),
      \<lparr>adjacency_method = ''auto'', adjacency_kwds = None,
       affinity_method = ''auto'', affinity_kwds = None,
       laplacian_method = ''auto'', laplacian_kwds = None,
       X = Some 0, adjacency_matrix = Some 1, affinity_matrix = Some 2,
       laplacian_matrix = Some 3, laplacian_symmetric = Some 4, laplacian_weights = Some 5\<rparr>,
      [Array2 [[0], [1]], Array2 [[0, 1], [1, 0]], Array2 [[0, 1], [1, 0]],
       Array2 [[0, 1], [1, 0]], Array2 [[0, 1], [1, 0]], Array1 [1, 1]])"
  by (simp add: example_store_eq compute_laplacian_matrix_def compute_affinity_matrix_def
      compute_adjacency_matrix_def example_collaborators_def alloc_def)


section \<open>Geometry: keyword arguments\<close>

text \<open>
  The merged dictionary is a local variable; no method assigns \<open>adjacency_kwds\<close>.
\<close>

lemma compute_adjacency_matrix_keeps_kwds:
  "adjacency_kwds (fst (snd (compute_adjacency_matrix c copy kwargs st))) = adjacency_kwds (fst st)"
  by (auto simp: compute_adjacency_matrix_def Let_def alloc_def split: prod.splits option.splits sum.splits)

text \<open>
  C1. The keyword arguments of a call are merged over the stored ones for that call, but
  they are not stored: on the example store a first call with \<open>radius = 2\<close> computes with
  radius 2 and leaves \<open>adjacency_kwds\<close> at \<open>None\<close>, and a second call with no keyword
  arguments computes with the default radius, not with the radius of the first call.
\<close>

theorem compute_adjacency_matrix_kwargs_not_stored:
  "(case compute_adjacency_matrix example_collaborators False [''radius'' \<mapsto> KNum 2] example_store of
      (r1, st1) \<Rightarrow>
        r1 = Inr 1 \<and> snd st1 ! 1 = Array2 [[0, 2], [2, 0]] \<and> adjacency_kwds (fst st1) = None
        \<and> (case compute_adjacency_matrix example_collaborators False Map.empty st1 of
              (r2, st2) \<Rightarrow> r2 = Inr 2 \<and> snd st2 ! 2 = Array2 [[0, 1], [1, 0]]))"
  by (simp add: example_store_eq compute_adjacency_matrix_def example_collaborators_def alloc_def)

section \<open>Geometry: what compute_laplacian_matrix returns\<close>

lemma compute_laplacian_matrix_returns_one:
  "compute_laplacian_matrix c copy return_lapsym kwargs st = (Inr r, st') \<Longrightarrow> \<exists>a. r = One a"
  by (auto simp: compute_laplacian_matrix_def Let_def split: prod.splits option.splits sum.splits if_splits)

text \<open>
  C2. With \<open>return_lapsym=True\<close> the three fields are filled, and the value returned is
  still the Laplacian alone: on the example store the call returns the one array at
  address 3, while the symmetric form and the weights sit at addresses 4 and 5.
\<close>

theorem compute_laplacian_matrix_lapsym_returns_one:
  "(case compute_laplacian_matrix example_collaborators False True Map.empty example_store of
      (r, (self, h)) \<Rightarrow>
        r = Inr (One 3) \<and> r \<noteq> Inr (Three 3 4 5) \<and> laplacian_matrix self = Some 3
        \<and> laplacian_symmetric self = Some 4 \<and> laplacian_weights self = Some 5)"
  by (simp add: example_laplacian)

section \<open>Geometry: repeated calls and copies\<close>






section \<open>Geometry: the missing-data error\<close>

text \<open>
  C5, as stated, fails: on a store with an adjacency matrix set and no data set,
  \<open>compute_adjacency_matrix\<close> raises the missing-data error.
\<close>

theorem injected_adjacency_counterexample:
  "\<not> ((fst (compute_adjacency_matrix example_collaborators False Map.empty injected_store)
          = Inl No_data_matrix)
       = (X (fst injected_store) = None \<and> adjacency_matrix (fst injected_store) = None))"
  by (simp add: injected_store_eq compute_adjacency_matrix_def)

lemma compute_adjacency_matrix_missing_data:
  "(fst (compute_adjacency_matrix c copy kwargs (self, h)) = Inl No_data_matrix) = (X self = None)"
  by (auto simp: compute_adjacency_matrix_def Let_def alloc_def split: option.splits sum.splits)

lemma affinity_stage_errors:
  "fst (case adjacency_matrix self of
            None \<Rightarrow> (Inl (Raised (OtherException ''adjacency_matrix is None'')), (self, h))
          | Some adj \<Rightarrow>
             (let affinity_kwds =
                    (case affinity_kwds self of None \<Rightarrow> Map.empty | Some d \<Rightarrow> d) ++ kwargs
              in case affinity_compute c (h ! adj) (affinity_method self) affinity_kwds of
                   Inl e \<Rightarrow> (Inl (Raised e), (self, h))
                 | Inr A \<Rightarrow>
                    (case alloc h A of
                       (a, h1) \<Rightarrow>
                         (let self = self\<lparr>affinity_matrix := Some a\<rparr> in
                          if copy then
                            (case alloc h1 (h1 ! a) of (b, h2) \<Rightarrow> (Inr b, (self, h2)))
                          else (Inr a, (self, h1)))))) \<noteq> Inl No_data_matrix"
  by (auto simp: Let_def alloc_def split: option.splits sum.splits)

lemma compute_affinity_matrix_missing_data:
  "(fst (compute_affinity_matrix c copy kwargs (self, h)) = Inl No_data_matrix)
     = (X self = None \<and> adjacency_matrix self = None)"
proof (cases "adjacency_matrix self")
  case None
  obtain r self' h' where adj: "compute_adjacency_matrix c False Map.empty (self, h) = (r, (self', h'))"
    by (cases "compute_adjacency_matrix c False Map.empty (self, h)") auto
  show ?thesis
  proof (cases r)
    case (Inl e)
    with adj None compute_adjacency_matrix_missing_data [of c False Map.empty self h]
    show ?thesis by (simp add: compute_affinity_matrix_def)
  next
    case (Inr a)
    with adj compute_adjacency_matrix_missing_data [of c False Map.empty self h]
    have "X self \<noteq> None" by simp
    with adj None Inr affinity_stage_errors [where self=self' and h=h' and kwargs=kwargs and c=c and copy=copy]
    show ?thesis by (simp add: compute_affinity_matrix_def)
  qed
next
  case (Some a)
  with affinity_stage_errors [where self=self and h=h and kwargs=kwargs and c=c and copy=copy]
  show ?thesis by (simp add: compute_affinity_matrix_def)
qed

text \<open>
  C5, amended. \<open>compute_adjacency_matrix\<close> raises the missing-data error exactly when no
  data set is set, whether or not an adjacency matrix is stored.
  \<open>compute_affinity_matrix\<close>, which derives the adjacency matrix only when none is
  stored, raises it exactly when no data set is set and no adjacency matrix is stored.
\<close>

theorem missing_data_error_iff:
  "(fst (compute_adjacency_matrix c copy kwargs (self, h)) = Inl No_data_matrix) = (X self = None)
   \<and> (fst (compute_affinity_matrix c copy kwargs (self, h)) = Inl No_data_matrix)
       = (X self = None \<and> adjacency_matrix self = None)"
  using compute_adjacency_matrix_missing_data compute_affinity_matrix_missing_data by simp

theorem missing_data_error_iff_witness:
  "X (fst injected_store) = None \<and> adjacency_matrix (fst injected_store) = Some 0
   \<and> fst (compute_adjacency_matrix example_collaborators False Map.empty injected_store)
       = Inl No_data_matrix
   \<and> fst (compute_affinity_matrix example_collaborators False Map.empty injected_store)
       \<noteq> Inl No_data_matrix
   \<and> fst (compute_affinity_matrix example_collaborators False Map.empty
            (Geometry_init ''auto'' None ''auto'' None ''auto'' None, []))
       = Inl No_data_matrix"
  using missing_data_error_iff [of example_collaborators False Map.empty "fst injected_store" "snd injected_store"]
    missing_data_error_iff [of example_collaborators False Map.empty
       "Geometry_init ''auto'' None ''auto'' None ''auto'' None" "[]"]
  by (simp add: injected_store_eq Geometry_init_def)

section \<open>Geometry: the deleters\<close>

text \<open>
  C9. \<open>delete_laplacian_matrix\<close> sets \<open>laplacian_matrix\<close> to \<open>None\<close> and nothing else:
  \<open>laplacian_symmetric\<close> and \<open>laplacian_weights\<close> (as an earlier
  \<open>compute_laplacian_matrix\<close> with \<open>return_lapsym=True\<close> left them), the data set, the
  adjacency and affinity matrices, the methods, the stored keyword arguments and every
  array of the heap are as before.
\<close>

theorem delete_laplacian_matrix_frame:
  assumes "delete_laplacian_matrix (self, h) = (self', h')"
  shows "laplacian_matrix self' = None
    \<and> laplacian_symmetric self' = laplacian_symmetric self
    \<and> laplacian_weights self' = laplacian_weights self
    \<and> X self' = X self
    \<and> adjacency_matrix self' = adjacency_matrix self
    \<and> affinity_matrix self' = affinity_matrix self
    \<and> adjacency_method self' = adjacency_method self
    \<and> adjacency_kwds self' = adjacency_kwds self
    \<and> affinity_method self' = affinity_method self
    \<and> affinity_kwds self' = affinity_kwds self
    \<and> laplacian_method self' = laplacian_method self
    \<and> laplacian_kwds self' = laplacian_kwds self
    \<and> h' = h"
  using assms by (auto simp: delete_laplacian_matrix_def)

theorem delete_laplacian_matrix_frame_witness:
  "(case snd (compute_laplacian_matrix example_collaborators False True Map.empty example_store) of
      (self, h) \<Rightarrow>
        laplacian_matrix self = Some 3 \<and> laplacian_symmetric self = Some 4
        \<and> laplacian_weights self = Some 5
        \<and> (case delete_laplacian_matrix (self, h) of
              (self', h') \<Rightarrow>
                laplacian_matrix self' = None \<and> laplacian_symmetric self' = Some 4
                \<and> laplacian_weights self' = Some 5 \<and> affinity_matrix self' = Some 2
                \<and> adjacency_matrix self' = Some 1 \<and> X self' = Some 0 \<and> h' = h))"
proof -
  obtain self h where st:
    "snd (compute_laplacian_matrix example_collaborators False True Map.empty example_store)
       = (self, h)"
    by (cases "snd (compute_laplacian_matrix example_collaborators False True Map.empty
                 example_store)")
  obtain self' h' where d: "delete_laplacian_matrix (self, h) = (self', h')"
    by (cases "delete_laplacian_matrix (self, h)")
  from st have "laplacian_matrix self = Some 3" "laplacian_symmetric self = Some 4"
    "laplacian_weights self = Some 5" "affinity_matrix self = Some 2"
    "adjacency_matrix self = Some 1" "X self = Some 0"
    by (auto simp: example_laplacian)
  with delete_laplacian_matrix_frame [OF d] st d show ?thesis by simp
qed

end
